theory Spec2Isabelle
  imports Complex_Main
begin

section \<open>Python values, exceptions and persistence\<close>

text \<open>
  Exceptions of the modelled code are values: a function that can raise returns
  \<open>error + 'a\<close>, with \<open>Inl\<close> for the exception. \<open>ValueError\<close> is what \<open>min\<close>
  raises on an empty iterable, \<open>TypeError\<close> what \<open>None - None\<close> raises,
  \<open>AttributeError\<close> what a failed attribute lookup and the \<open>question_base\<close> setter
  raise, \<open>DoesNotExist\<close> what a missing one-to-one child row raises.
  \<open>SubmissionRejected\<close>, \<open>RunnerUnavailable\<close> and \<open>RunnerTimeout\<close> are named by
  the specification only.
\<close>

datatype error =
    ValueError
  | TypeError
  | AttributeError
  | DoesNotExist
  | SubmissionRejected
  | RunnerUnavailable
  | RunnerTimeout

text \<open>
  The value of a Python \<open>and\<close> chain is the first falsy operand, which need not be a
  \<open>bool\<close>: \<open>is_active\<close> can return \<open>None\<close>.
\<close>

datatype pyval = PyNone | PyBool bool

fun truthy :: "pyval \<Rightarrow> bool" where
  "truthy PyNone = False"
| "truthy (PyBool b) = b"

text \<open>
  A \<open>datetime\<close> is a number of microseconds, a \<open>timedelta\<close> their difference; both
  are exact in Python.
\<close>

type_synonym datetime = int
type_synonym timedelta = int

text \<open>
  \<open>save()\<close> writes the row of the object. The database is modelled by the log of the
  rows written, latest last.
\<close>

definition save :: "'a \<Rightarrow> 'a list \<Rightarrow> 'a list" where
  "save row written = written @ [row]"

text \<open>\<open>QuerySet.first()\<close>: the first object, or \<open>None\<close>.\<close>

fun first :: "'a list \<Rightarrow> 'a option" where
  "first [] = None"
| "first (x # xs) = Some x"

subsection \<open>The builtin \<open>min(iterable, key=f)\<close>\<close>

text \<open>
  \<open>min\<close> calls the key on every item in order, keeps the current best and replaces it
  only when the new key is strictly smaller, so the first item of minimal key is
  returned. An exception of the key propagates; an empty iterable raises \<open>ValueError\<close>.
\<close>

fun min_loop :: "('a \<Rightarrow> error + 'k::linorder) \<Rightarrow> 'a \<Rightarrow> 'k \<Rightarrow> 'a list \<Rightarrow> error + 'a" where
  "min_loop key best bestkey [] = Inr best"
| "min_loop key best bestkey (x # xs) =
     (case key x of
        Inl e \<Rightarrow> Inl e
      | Inr k \<Rightarrow> if k < bestkey then min_loop key x k xs
                 else min_loop key best bestkey xs)"

definition py_min :: "('a \<Rightarrow> error + 'k::linorder) \<Rightarrow> 'a list \<Rightarrow> error + 'a" where
  "py_min key xs =
     (case xs of
        [] \<Rightarrow> Inl ValueError
      | x # rest \<Rightarrow> (case key x of Inl e \<Rightarrow> Inl e | Inr k \<Rightarrow> min_loop key x k rest))"

section \<open>cs\_battles/models.py\<close>

text \<open>
  \<open>BattleResponse\<close>, with the four fields the class declares: \<open>response\<close> and
  \<open>battle\<close> are the keys of the related rows, and \<open>response\<close>, being one-to-one,
  identifies the \<open>BattleResponse\<close>.
\<close>

record BattleResponse =
  response :: nat
  time_begin :: datetime
  time_end :: "datetime option"
  battle :: nat

text \<open>
  \<open>Battle\<close>: \<open>battles\<close> is the reverse relation of \<open>BattleResponse.battle\<close>
  (\<open>related_name='battles'\<close>), in the order the query set enumerates it;
  \<open>invitations_user\<close>, \<open>battle_owner\<close>, \<open>question\<close> and \<open>language\<close> hold keys.
\<close>

record Battle =
  invitations_user :: "nat list"
  battle_owner :: nat
  battle_winner :: "BattleResponse option"
  question :: nat
  type :: string
  language :: nat
  battles :: "BattleResponse list"

text \<open>
  \<open>is_active\<close> is \<open>self.battles.first() and not self.battle_winner and not
  self.invitations_user.all()\<close>. A model object is truthy, a query set is truthy when
  it is not empty.
\<close>

definition is_active :: "Battle \<Rightarrow> pyval" where
  "is_active self =
     (if first (battles self) = None then PyNone
      else if \<not> (battle_winner self = None) then PyBool False
      else PyBool (invitations_user self = []))"

text \<open>
  The key of \<open>winner_length\<close> is \<open>len(battle.source)\<close>, applied to a
  \<open>BattleResponse\<close>. The class declares the fields \<open>response\<close>, \<open>time_begin\<close>,
  \<open>time_end\<close> and \<open>battle\<close> and the methods \<open>update\<close> and \<open>__str__\<close>, and no
  attribute \<open>source\<close>: the lookup raises \<open>AttributeError\<close> before \<open>len\<close> is
  called.
\<close>

definition source_length :: "BattleResponse \<Rightarrow> error + nat" where
  "source_length b = Inl AttributeError"

definition winner_length :: "Battle \<Rightarrow> error + BattleResponse" where
  "winner_length self = py_min source_length (battles self)"

text \<open>
  The key of \<open>winner_time\<close> is \<open>battle.time_end - battle.time_end\<close>, as the source
  has it; subtracting \<open>None\<close> raises \<open>TypeError\<close>.
\<close>

definition source_time :: "BattleResponse \<Rightarrow> error + timedelta" where
  "source_time b =
     (case time_end b of
        None \<Rightarrow> Inl TypeError
      | Some t \<Rightarrow> Inr (t - t))"

definition winner_time :: "Battle \<Rightarrow> error + BattleResponse" where
  "winner_time self = py_min source_time (battles self)"

text \<open>
  \<open>getattr(self, 'winner_' + self.type)()\<close>: the two methods whose names start with
  \<open>winner_\<close>; any other name raises \<open>AttributeError\<close>.
\<close>

definition winner_dispatch :: "Battle \<Rightarrow> error + BattleResponse" where
  "winner_dispatch self =
     (if type self = ''length'' then winner_length self
      else if type self = ''time'' then winner_time self
      else Inl AttributeError)"

text \<open>
  \<open>determine_winner\<close> returns the value returned, the battle object and the log of
  rows written; an exception leaves before the assignment and the \<open>save()\<close>.
\<close>

definition determine_winner ::
    "Battle \<Rightarrow> Battle list \<Rightarrow> error + (BattleResponse option \<times> Battle \<times> Battle list)" where
  "determine_winner self written =
     (if truthy (is_active self) then
        (case winner_dispatch self of
           Inl e \<Rightarrow> Inl e
         | Inr w \<Rightarrow>
             (let self' = self\<lparr>battle_winner := Some w\<rparr>
              in Inr (battle_winner self', self', save self' written)))
      else Inr (battle_winner self, self, written))"

text \<open>
  The response item handed to \<open>BattleResponse.update\<close>; \<open>created\<close> is its creation
  timestamp.
\<close>

record ResponseItem =
  created :: datetime
  item_source :: string

definition update ::
    "BattleResponse \<Rightarrow> ResponseItem \<Rightarrow> BattleResponse list \<Rightarrow> BattleResponse \<times> BattleResponse list" where
  "update self response_item written =
     (let self' = self\<lparr>time_end := Some (created response_item)\<rparr>
      in (self', save self' written))"

subsection \<open>Submission admission\<close>

text \<open>
  Modelled from the spec: \<open>limit_submitions\<close> and \<open>give_up\<close> are used by
  test\_models.py but declared nowhere in models.py. \<open>participation\<close> is the state of
  one participant as the specification describes it: the battle and its cap
  \<open>limit_submitions\<close>, the participant's \<open>BattleResponse\<close>, the \<open>give_up\<close> flag
  and the response items recorded so far.
\<close>

record participation =
  battle_of :: Battle
  limit_submitions :: int
  tracker :: BattleResponse
  give_up :: bool
  items :: "ResponseItem list"

text \<open>
  Modelled from the spec: \<open>submit_code\<close> is called by test\_models.py but defined
  nowhere in models.py. The specification says that it is valid only when
  \<open>limit_submitions\<close> is strictly positive, the battle has no winner yet, and the
  participant has neither given up nor reached the cap, and fails with
  \<open>SubmissionRejected\<close> otherwise; that on success it sends the source to the code
  runner, wraps the result as a new response item, updates \<open>time_end\<close> to its
  creation timestamp and returns the item; and that a failure of the runner consumes
  no submission slot. The runner and the clock are parameters; the result is the
  outcome of the call and the state after it.
\<close>

definition submit_code ::
    "(string \<Rightarrow> error + 'out) \<Rightarrow> datetime \<Rightarrow> participation \<Rightarrow> string
       \<Rightarrow> (error + ResponseItem) \<times> participation" where
  "submit_code runner now p src =
     (if limit_submitions p \<le> 0 \<or> battle_winner (battle_of p) \<noteq> None \<or> give_up p
          \<or> limit_submitions p \<le> int (length (items p))
      then (Inl SubmissionRejected, p)
      else (case runner src of
              Inl e \<Rightarrow> (Inl e, p)
            | Inr out \<Rightarrow>
                (let item = \<lparr>created = now, item_source = src\<rparr>
                 in (Inr item,
                     p\<lparr>tracker := fst (update (tracker p) item []),
                       items := items p @ [item]\<rparr>))))"

text \<open>
  A participant's successive calls, each with the time of the call and the source
  submitted; the outcomes are collected in order.
\<close>

fun submit_all ::
    "(string \<Rightarrow> error + 'out) \<Rightarrow> participation \<Rightarrow> (datetime \<times> string) list
       \<Rightarrow> (error + ResponseItem) list \<times> participation" where
  "submit_all runner p [] = ([], p)"
| "submit_all runner p ((now, src) # calls) =
     (case submit_code runner now p src of
        (r, p') \<Rightarrow> (case submit_all runner p' calls of (rs, p'') \<Rightarrow> (r # rs, p'')))"

definition successes :: "(error + ResponseItem) list \<Rightarrow> nat" where
  "successes rs = length (filter (\<lambda>r. \<not> isl r) rs)"

section \<open>cs\_questions/models.py\<close>

text \<open>
  \<open>Question\<close>, with its primary key (\<open>None\<close> until the row is saved) and the fields
  the modelled methods read.
\<close>

record Question =
  pk :: "nat option"
  title :: string
  owner :: "nat option"

text \<open>
  \<open>QuestionActivity\<close> is a child table of \<open>Activity\<close>: \<open>activity.questionactivity\<close>
  is the child row, and raises \<open>DoesNotExist\<close> when the activity has none.
\<close>

record QuestionActivity =
  question_base :: Question

record Activity =
  questionactivity :: "QuestionActivity option"

record QuestionResponse =
  activity :: "Activity option"
  question_for_unbound :: "Question option"

text \<open>
  The getter of the property \<open>question_base\<close>:
  \<open>self.question_for_unbound or self.activity.questionactivity.question_base\<close>.
\<close>

definition get_question_base :: "QuestionResponse \<Rightarrow> error + Question" where
  "get_question_base self =
     (case question_for_unbound self of
        Some q \<Rightarrow> Inr q
      | None \<Rightarrow>
          (case activity self of
             None \<Rightarrow> Inl AttributeError
           | Some a \<Rightarrow>
               (case questionactivity a of
                  None \<Rightarrow> Inl DoesNotExist
                | Some qa \<Rightarrow> Inr (question_base qa))))"

text \<open>
  The setter of \<open>question_base\<close> returns how the call ended and the response object
  after it.
\<close>

definition set_question_base ::
    "QuestionResponse \<Rightarrow> Question \<Rightarrow> (error + unit) \<times> QuestionResponse" where
  "set_question_base self val =
     (if activity self = None then (Inr (), self\<lparr>question_for_unbound := Some val\<rparr>)
      else (case get_question_base self of
              Inl e \<Rightarrow> (Inl e, self)
            | Inr q \<Rightarrow>
                if pk q \<noteq> pk val then (Inl AttributeError, self)
                else (Inr (), self)))"

subsection \<open>Python floats\<close>

text \<open>
  A Python \<open>float\<close> is an IEEE 754 binary64 number. The finite ones are the
  rationals \<open>m * 2 ^ e\<close> with \<open>\<bar>m\<bar> < 2 ^ 53\<close> and \<open>e \<ge> - 1074\<close>, and a \<open>double\<close> is
  such a rational. Comparison and \<open>abs\<close> are exact; the sum and the difference of
  two floats are the exact result rounded to the nearest float, ties to the even
  significand. Infinities and NaN are left out: the fields hold finite numbers, and
  a sum too large for a float is kept as it is, which compares with every finite
  float as the infinity it would round to.
\<close>

type_synonym double = rat

text \<open>The number of binary digits of a positive integer.\<close>

function bit_length :: "int \<Rightarrow> int" where
  "bit_length n = (if n \<le> 0 then 0 else 1 + bit_length (n div 2))"
  by pat_completeness auto
termination
  by (relation "measure nat") auto

declare bit_length.simps [simp del]

text \<open>
  The binary exponent of a rational \<open>x \<noteq> 0\<close>: the \<open>e\<close> with
  \<open>2 ^ e \<le> \<bar>x\<bar> < 2 ^ (e + 1)\<close>, found from the digits of numerator and denominator.
\<close>

definition exponent :: "rat \<Rightarrow> int" where
  "exponent x =
     (case quotient_of \<bar>x\<bar> of
        (p, q) \<Rightarrow>
          (let e0 = bit_length p - bit_length q
           in if power_int 2 e0 \<le> \<bar>x\<bar> then e0 else e0 - 1))"

text \<open>Rounding to the nearest integer, a tie to the even one.\<close>

definition round_half_even :: "rat \<Rightarrow> int" where
  "round_half_even y =
     (let f = \<lfloor>y\<rfloor>; d = y - of_int f
      in if d < 1 / 2 then f
         else if 1 / 2 < d then f + 1
         else if even f then f else f + 1)"

text \<open>
  Rounding a rational to a float: a significand of 53 binary digits, so the spacing
  of the floats around \<open>x\<close> is \<open>2 ^ (exponent x - 52)\<close>, and \<open>2 ^ (- 1074)\<close> in the
  subnormal range.
\<close>

definition round_double :: "rat \<Rightarrow> double" where
  "round_double x =
     (if x = 0 then 0
      else (let quantum = power_int 2 (max (exponent x) (- 1022) - 52)
            in of_int (round_half_even (x / quantum)) * quantum))"

definition is_double :: "rat \<Rightarrow> bool" where
  "is_double x \<longleftrightarrow> round_double x = x"



subsection \<open>NumericQuestion\<close>







subsection \<open>StringMatchQuestion\<close>

text \<open>
  \<open>StringMatchQuestion\<close> and the response it grades. \<open>feedback_cls\<close> is not defined
  in the file and is a parameter: the constructor of the feedback object, given the
  response and whether it is correct.
\<close>

record StringMatchQuestion =
  answer :: string
  is_regex :: bool

record TextualResponse =
  response_value :: string

text \<open>\<open>Question.grade\<close>, the default: \<open>self.feedback_cls(response, self.answer == response.value)\<close>.\<close>

definition grade ::
    "(TextualResponse \<Rightarrow> bool \<Rightarrow> 'fb) \<Rightarrow> StringMatchQuestion \<Rightarrow> TextualResponse \<Rightarrow> 'fb" where
  "grade feedback_cls self r = feedback_cls r (answer self = response_value r)"

text \<open>
  \<open>StringMatchQuestion.grade\<close>: the regex branch reads the value and falls off the
  end of the method, which returns \<open>None\<close>.
\<close>

definition string_match_grade ::
    "(TextualResponse \<Rightarrow> bool \<Rightarrow> 'fb) \<Rightarrow> StringMatchQuestion \<Rightarrow> TextualResponse \<Rightarrow> 'fb option" where
  "string_match_grade feedback_cls self r =
     (if is_regex self then None
      else Some (grade feedback_cls self r))"

section \<open>Example data\<close>

text \<open>
  Three participants of one battle, in the order they joined. The first has the
  longest elapsed time (12.3 s), the second the shortest (9.8 s).
\<close>

definition alice :: BattleResponse where
  "alice = \<lparr>response = 11, time_begin = 0, time_end = Some 12300000, battle = 1\<rparr>"

definition bob :: BattleResponse where
  "bob = \<lparr>response = 12, time_begin = 0, time_end = Some 9800000, battle = 1\<rparr>"

definition carol :: BattleResponse where
  "carol = \<lparr>response = 13, time_begin = 0, time_end = Some 11000000, battle = 1\<rparr>"

definition open_battle :: "string \<Rightarrow> BattleResponse list \<Rightarrow> Battle" where
  "open_battle t rs =
     \<lparr>invitations_user = [], battle_owner = 7, battle_winner = None, question = 3,
      type = t, language = 1, battles = rs\<rparr>"

definition ok_runner :: "string \<Rightarrow> error + string" where
  "ok_runner src = Inr ''Oi''"

definition newcomer :: "int \<Rightarrow> participation" where
  "newcomer n =
     \<lparr>battle_of = open_battle ''length'' [alice], limit_submitions = n,
      tracker = alice, give_up = False, items = []\<rparr>"

definition question_one :: Question where
  "question_one = \<lparr>pk = Some 1, title = ''sum'', owner = None\<rparr>"

definition question_two :: Question where
  "question_two = \<lparr>pk = Some 2, title = ''product'', owner = None\<rparr>"

definition bound_response :: QuestionResponse where
  "bound_response =
     \<lparr>activity = Some \<lparr>questionactivity = Some \<lparr>question_base = question_one\<rparr>\<rparr>,
      question_for_unbound = None\<rparr>"

definition unbound_response :: QuestionResponse where
  "unbound_response = \<lparr>activity = None, question_for_unbound = None\<rparr>"

text \<open>
  A response whose activity implies the first question while \<open>question_for_unbound\<close>
  holds the second: the state of an unbound response of the second question that
  was later given an activity.
\<close>

definition rebound_response :: QuestionResponse where
  "rebound_response =
     \<lparr>activity = Some \<lparr>questionactivity = Some \<lparr>question_base = question_one\<rparr>\<rparr>,
      question_for_unbound = Some question_two\<rparr>"

text \<open>
  The floats that Python writes \<open>0.1\<close>, \<open>0.2\<close>, \<open>0.30000000000000004\<close>, \<open>10.4\<close>
  and \<open>10.6\<close>, as the rationals they are, and the questions and responses built
  from them.
\<close>

definition float_0_1 :: double where
  "float_0_1 = 3602879701896397 / 36028797018963968"

definition float_0_2 :: double where
  "float_0_2 = 3602879701896397 / 18014398509481984"

definition float_0_3 :: double where
  "float_0_3 = 1351079888211149 / 4503599627370496"

definition float_10_4 :: double where
  "float_10_4 = 5854679515581645 / 562949953421312"

definition float_10_6 :: double where
  "float_10_6 = 5967269506265907 / 562949953421312"




definition closed_battle :: Battle where
  "closed_battle = (open_battle ''length'' [alice, bob])\<lparr>battle_winner := Some bob\<rparr>"

text \<open>
  The key the specification gives for \<open>winner_time\<close>: the elapsed time
  \<open>time_end - time_begin\<close> of a response that has a \<open>time_end\<close>.
\<close>

definition elapsed :: "BattleResponse \<Rightarrow> timedelta option" where
  "elapsed b = map_option (\<lambda>t. t - time_begin b) (time_end b)"

section \<open>The builtin \<open>min\<close> returns the first item of minimal key\<close>

lemma min_loop_first_minimal:
  assumes key: "\<And>x. key x = Inr (f x)"
    and pre: "\<forall>y \<in> set pre. f best < f y"
    and mid: "\<forall>y \<in> set mid. f best \<le> f y"
  shows "\<exists>pre' r post'. min_loop key best (f best) xs = Inr r
           \<and> pre @ best # mid @ xs = pre' @ r # post'
           \<and> (\<forall>y \<in> set pre'. f r < f y) \<and> (\<forall>y \<in> set post'. f r \<le> f y)"
  using pre mid
proof (induction xs arbitrary: pre best mid)
  case Nil
  then show ?case by auto
next
  case (Cons x xs)
  show ?case
  proof (cases "f x < f best")
    case True
    have p: "\<forall>y \<in> set (pre @ best # mid). f x < f y"
      using True Cons.prems by auto
    have m: "\<forall>y \<in> set []. f x \<le> f y" by simp
    from Cons.IH [OF p m] show ?thesis
      using True by (simp add: key)
  next
    case False
    have m: "\<forall>y \<in> set (mid @ [x]). f best \<le> f y"
      using False Cons.prems by auto
    from Cons.IH [OF Cons.prems(1) m] show ?thesis
      using False by (simp add: key)
  qed
qed

lemma py_min_first_minimal:
  assumes key: "\<And>x. key x = Inr (f x)" and ne: "xs \<noteq> []"
  shows "\<exists>pre r post. py_min key xs = Inr r \<and> xs = pre @ r # post
           \<and> (\<forall>y \<in> set pre. f r < f y) \<and> (\<forall>y \<in> set post. f r \<le> f y)"
proof -
  from ne obtain x rest where xs: "xs = x # rest" by (cases xs) auto
  have "\<exists>pre' r post'. min_loop key x (f x) rest = Inr r
           \<and> [] @ x # [] @ rest = pre' @ r # post'
           \<and> (\<forall>y \<in> set pre'. f r < f y) \<and> (\<forall>y \<in> set post'. f r \<le> f y)"
    by (rule min_loop_first_minimal [OF key]) simp_all
  then show ?thesis by (simp add: py_min_def xs key)
qed

section \<open>Winner resolution\<close>

text \<open>
  When every response has a \<open>time_end\<close>, every key of \<open>winner_time\<close> is the zero
  \<open>timedelta\<close>, and the first response wins whatever the times are.
\<close>

lemma min_loop_source_time:
  "\<forall>y \<in> set ys. time_end y \<noteq> None \<Longrightarrow> min_loop source_time b 0 ys = Inr b"
  by (induction ys) (auto simp: source_time_def)

lemma winner_time_first:
  assumes "battles self = x # rest" and "\<forall>y \<in> set (battles self). time_end y \<noteq> None"
  shows "winner_time self = Inr x"
  using assms min_loop_source_time [of rest x]
  by (auto simp: winner_time_def py_min_def source_time_def)

lemma winner_time_unfinished:
  "winner_time (open_battle ''time'' [alice, bob\<lparr>time_end := None\<rparr>]) = Inl TypeError"
  by (simp add: winner_time_def py_min_def source_time_def open_battle_def alice_def bob_def)

text \<open>
  Claim C1, evaluated on the code. The claim says that \<open>winner_time\<close> returns the
  response of minimal elapsed time. In a battle of type \<open>time\<close> whose two responses
  have elapsed times 12.3 s and 9.8 s, in this order, \<open>winner_time\<close> returns the
  response with 12.3 s: its key subtracts \<open>time_end\<close> from itself.
\<close>

theorem winner_time_ignores_elapsed:
  "winner_time (open_battle ''time'' [alice, bob]) = Inr alice
   \<and> elapsed alice = Some 12300000 \<and> elapsed bob = Some 9800000"
  by (simp add: winner_time_def py_min_def source_time_def open_battle_def alice_def bob_def
      elapsed_def)

text \<open>
  Claim C2. When \<open>battle_winner\<close> is already set, \<open>determine_winner\<close> returns the
  stored winner, leaves the battle as it is and writes no row; a second call on the
  state the first one left does the same.
\<close>

theorem determine_winner_stored:
  assumes "battle_winner self = Some w"
  shows "determine_winner self written = Inr (Some w, self, written)
         \<and> (case determine_winner self written of
               Inl e \<Rightarrow> Inl e
             | Inr (r, self', written') \<Rightarrow> determine_winner self' written')
           = Inr (Some w, self, written)"
  using assms by (simp add: determine_winner_def is_active_def)

theorem determine_winner_stored_witness:
  "battle_winner closed_battle = Some bob
   \<and> determine_winner closed_battle [] = Inr (Some bob, closed_battle, [])"
proof -
  have h: "battle_winner closed_battle = Some bob"
    by (simp add: closed_battle_def)
  show ?thesis using h determine_winner_stored [OF h, of "[]"] by simp
qed

text \<open>
  In general a second call returns what the first returned and writes nothing more.
\<close>

lemma determine_winner_idempotent:
  assumes "determine_winner self written = Inr (r, self', written')"
  shows "determine_winner self' written' = Inr (r, self', written')"
proof (cases "truthy (is_active self)")
  case True
  with assms obtain w where "winner_dispatch self = Inr w"
    and "r = Some w" "self' = self\<lparr>battle_winner := Some w\<rparr>"
    by (auto simp: determine_winner_def Let_def split: sum.splits)
  then show ?thesis by (simp add: determine_winner_def is_active_def)
next
  case False
  with assms show ?thesis by (auto simp: determine_winner_def)
qed

text \<open>
  \<open>winner_length\<close> never returns a response: the key fails on the first response,
  and \<open>min\<close> of an empty query set raises \<open>ValueError\<close>.
\<close>

lemma winner_length_raises:
  "winner_length self = (if battles self = [] then Inl ValueError else Inl AttributeError)"
  by (cases "battles self") (simp_all add: winner_length_def py_min_def source_length_def)

text \<open>
  Claim C3, evaluated on the code. The claim says that in a battle of type \<open>length\<close>
  with at least one response \<open>winner_length\<close>, and with it \<open>determine_winner\<close> on
  an active battle, returns the response of minimal source length. On such a battle
  of three responses both raise \<open>AttributeError\<close>, and no winner is stored: a
  \<open>BattleResponse\<close> has no attribute \<open>source\<close>.
\<close>

theorem winner_length_attribute_error:
  "winner_length (open_battle ''length'' [alice, bob, carol]) = Inl AttributeError
   \<and> truthy (is_active (open_battle ''length'' [alice, bob, carol]))
   \<and> determine_winner (open_battle ''length'' [alice, bob, carol]) [] = Inl AttributeError"
  by (simp add: determine_winner_def winner_dispatch_def winner_length_def py_min_def
      source_length_def is_active_def open_battle_def)

section \<open>Battle activity\<close>

text \<open>
  Claim C5. \<open>Battle.is_active\<close> is \<open>True\<close>, and is truthy, exactly when the battle
  has at least one \<open>BattleResponse\<close>, \<open>battle_winner\<close> is unset and
  \<open>invitations_user\<close> is empty.
\<close>

theorem is_active_iff:
  "(is_active self = PyBool True
      \<longleftrightarrow> battles self \<noteq> [] \<and> battle_winner self = None \<and> invitations_user self = [])
   \<and> (truthy (is_active self)
      \<longleftrightarrow> battles self \<noteq> [] \<and> battle_winner self = None \<and> invitations_user self = [])"
  by (cases "battles self") (auto simp: is_active_def)

theorem is_active_iff_witness:
  "is_active (open_battle ''length'' [alice]) = PyBool True
   \<and> is_active closed_battle \<noteq> PyBool True
   \<and> is_active (open_battle ''length'' []) \<noteq> PyBool True
   \<and> is_active ((open_battle ''length'' [alice])\<lparr>invitations_user := [5]\<rparr>) \<noteq> PyBool True"
  using is_active_iff [of "open_battle ''length'' [alice]"] is_active_iff [of closed_battle]
    is_active_iff [of "open_battle ''length'' []"]
    is_active_iff [of "(open_battle ''length'' [alice])\<lparr>invitations_user := [5]\<rparr>"]
  by (simp add: open_battle_def closed_battle_def)

section \<open>BattleResponse.update\<close>

text \<open>
  Claim C8. \<open>update(response_item)\<close> sets \<open>time_end\<close> to the creation timestamp of
  the response item, leaves \<open>time_begin\<close>, \<open>battle\<close>, \<open>response\<close> and every other
  field as they were, and saves the row.
\<close>

theorem update_sets_time_end_only:
  "update self response_item written
     = (self\<lparr>time_end := Some (created response_item)\<rparr>,
        written @ [self\<lparr>time_end := Some (created response_item)\<rparr>])
   \<and> time_end (fst (update self response_item written)) = Some (created response_item)
   \<and> time_begin (fst (update self response_item written)) = time_begin self
   \<and> battle (fst (update self response_item written)) = battle self
   \<and> response (fst (update self response_item written)) = response self"
  by (simp add: update_def save_def Let_def)

section \<open>Submission admission\<close>

lemma submit_code_frame:
  assumes "submit_code runner now p src = (r, p')"
  shows "limit_submitions p' = limit_submitions p \<and> battle_of p' = battle_of p
         \<and> give_up p' = give_up p
         \<and> length (items p') = length (items p) + (if isl r then 0 else 1)"
  using assms
  by (auto simp: submit_code_def Let_def split: if_splits sum.splits)

text \<open>
  After any sequence of calls the number of recorded items has grown by the number of
  successful calls, and the cap, the battle and the \<open>give_up\<close> flag are as before.
\<close>

lemma submit_all_count:
  assumes "submit_all runner p calls = (rs, p')"
  shows "limit_submitions p' = limit_submitions p \<and> battle_of p' = battle_of p
         \<and> give_up p' = give_up p
         \<and> length (items p') = length (items p) + successes rs"
  using assms
proof (induction calls arbitrary: p rs p')
  case Nil
  then show ?case by (simp add: successes_def)
next
  case (Cons c calls)
  obtain now src where c: "c = (now, src)" by (cases c)
  obtain r p1 where s1: "submit_code runner now p src = (r, p1)"
    by (cases "submit_code runner now p src")
  obtain rs1 p2 where s2: "submit_all runner p1 calls = (rs1, p2)"
    by (cases "submit_all runner p1 calls")
  from Cons.prems c s1 s2 have eq: "rs = r # rs1" "p' = p2" by simp_all
  from submit_code_frame [OF s1] Cons.IH [OF s2] eq
  show ?case by (simp add: successes_def)
qed

lemma submit_code_rejects:
  assumes "limit_submitions p \<le> 0 \<or> battle_winner (battle_of p) \<noteq> None \<or> give_up p
           \<or> limit_submitions p \<le> int (length (items p))"
  shows "submit_code runner now p src = (Inl SubmissionRejected, p)"
  using assms by (simp add: submit_code_def)

text \<open>
  Claim C4. A participant starts with no response item, in a battle whose cap
  \<open>limit_submitions\<close> is positive. After calls of which as many as the cap succeeded,
  the next \<open>submit_code\<close> fails with \<open>SubmissionRejected\<close> and leaves the state,
  hence the recorded items, as it was. When the cap is zero or negative, or the
  battle has a winner, every call fails with \<open>SubmissionRejected\<close> in the same way.
\<close>

theorem submit_code_cap:
  "(items p0 = [] \<and> 0 < limit_submitions p0 \<and> submit_all runner p0 calls = (rs, p)
      \<and> int (successes rs) = limit_submitions p0
     \<longrightarrow> submit_code runner now p src = (Inl SubmissionRejected, p))
   \<and> (limit_submitions q \<le> 0 \<or> battle_winner (battle_of q) \<noteq> None
     \<longrightarrow> submit_code runner now q src = (Inl SubmissionRejected, q))"
proof (intro conjI impI)
  assume a: "items p0 = [] \<and> 0 < limit_submitions p0 \<and> submit_all runner p0 calls = (rs, p)
      \<and> int (successes rs) = limit_submitions p0"
  then have "submit_all runner p0 calls = (rs, p)" by simp
  from submit_all_count [OF this] a
  have "limit_submitions p \<le> int (length (items p))" by simp
  then show "submit_code runner now p src = (Inl SubmissionRejected, p)"
    by (simp add: submit_code_rejects)
next
  assume "limit_submitions q \<le> 0 \<or> battle_winner (battle_of q) \<noteq> None"
  then show "submit_code runner now q src = (Inl SubmissionRejected, q)"
    by (auto simp: submit_code_rejects)
qed

theorem submit_code_cap_witness:
  "successes (fst (submit_all ok_runner (newcomer 2) [(10, ''a''), (20, ''b'')])) = 2
   \<and> length (items (snd (submit_all ok_runner (newcomer 2) [(10, ''a''), (20, ''b'')]))) = 2
   \<and> submit_code ok_runner 30
         (snd (submit_all ok_runner (newcomer 2) [(10, ''a''), (20, ''b'')])) ''c''
       = (Inl SubmissionRejected,
          snd (submit_all ok_runner (newcomer 2) [(10, ''a''), (20, ''b'')]))
   \<and> submit_code ok_runner 30 (newcomer 0) ''c'' = (Inl SubmissionRejected, newcomer 0)"
proof -
  let ?run = "submit_all ok_runner (newcomer 2) [(10, ''a''), (20, ''b'')]"
  have run: "successes (fst ?run) = 2 \<and> length (items (snd ?run)) = 2"
    by (simp add: submit_code_def newcomer_def open_battle_def ok_runner_def successes_def
        update_def save_def Let_def)
  have h1: "items (newcomer 2) = [] \<and> 0 < limit_submitions (newcomer 2)
            \<and> ?run = (fst ?run, snd ?run)
            \<and> int (successes (fst ?run)) = limit_submitions (newcomer 2)"
    using run by (simp add: newcomer_def)
  have h2: "limit_submitions (newcomer 0) \<le> 0
            \<or> battle_winner (battle_of (newcomer 0)) \<noteq> None"
    by (simp add: newcomer_def open_battle_def)
  from submit_code_cap
         [of "newcomer 2" ok_runner "[(10, ''a''), (20, ''b'')]" "fst ?run" "snd ?run"
             30 "''c''" "newcomer 0"]
       h1 h2
  have "submit_code ok_runner 30 (snd ?run) ''c'' = (Inl SubmissionRejected, snd ?run)
        \<and> submit_code ok_runner 30 (newcomer 0) ''c'' = (Inl SubmissionRejected, newcomer 0)"
    by blast
  with run show ?thesis by simp
qed

section \<open>Binding a response to a question\<close>

text \<open>
  The setter compares the new question with what the getter returns, and the getter
  prefers \<open>question_for_unbound\<close> to the activity's question. On a response bound to
  an activity that implies the first question, with \<open>question_for_unbound\<close> holding
  the second, setting \<open>question_base\<close> to the second question, which differs from
  the one the activity implies, raises nothing.
\<close>

theorem set_question_base_rebound_counterexample:
  "activity rebound_response
     = Some \<lparr>questionactivity = Some \<lparr>question_base = question_one\<rparr>\<rparr>
   \<and> pk question_two \<noteq> pk question_one
   \<and> set_question_base rebound_response question_two = (Inr (), rebound_response)"
  by (simp add: set_question_base_def get_question_base_def rebound_response_def
      question_one_def question_two_def)

text \<open>
  Claim C7, amended. For a response bound to an activity whose
  \<open>question_for_unbound\<close> is null, as the field's help text requires of activity
  responses, and whose activity implies a question, setting \<open>question_base\<close> to a
  question with another primary key raises the setter's exception (an
  \<open>AttributeError\<close> in the code, the specification's \<open>InvalidBindingError\<close>) and
  leaves the response as it was. For an unbound response (\<open>activity\<close> unset) the
  setter stores the question in \<open>question_for_unbound\<close>.
\<close>

theorem set_question_base_binding:
  "(activity self = Some a \<and> question_for_unbound self = None
      \<and> questionactivity a = Some qa \<and> pk val \<noteq> pk (question_base qa)
     \<longrightarrow> set_question_base self val = (Inl AttributeError, self))
   \<and> (activity self = None
     \<longrightarrow> set_question_base self val = (Inr (), self\<lparr>question_for_unbound := Some val\<rparr>)
         \<and> question_for_unbound (snd (set_question_base self val)) = Some val)"
  by (auto simp: set_question_base_def get_question_base_def)

theorem set_question_base_binding_witness:
  "set_question_base bound_response question_two = (Inl AttributeError, bound_response)
   \<and> set_question_base unbound_response question_two
       = (Inr (), \<lparr>activity = None, question_for_unbound = Some question_two\<rparr>)"
proof -
  have h1: "activity bound_response = Some \<lparr>questionactivity = Some \<lparr>question_base = question_one\<rparr>\<rparr>
            \<and> question_for_unbound bound_response = None
            \<and> questionactivity \<lparr>questionactivity = Some \<lparr>question_base = question_one\<rparr>\<rparr>
                = Some \<lparr>question_base = question_one\<rparr>
            \<and> pk question_two \<noteq> pk (question_base \<lparr>question_base = question_one\<rparr>)"
    by (simp add: bound_response_def question_one_def question_two_def)
  have h2: "activity unbound_response = None"
    by (simp add: unbound_response_def)
  from set_question_base_binding
         [of bound_response "\<lparr>questionactivity = Some \<lparr>question_base = question_one\<rparr>\<rparr>"
             "\<lparr>question_base = question_one\<rparr>" question_two] h1
  have b: "set_question_base bound_response question_two = (Inl AttributeError, bound_response)"
    by blast
  from set_question_base_binding [of unbound_response _ _ question_two] h2
  have u: "set_question_base unbound_response question_two
             = (Inr (), unbound_response\<lparr>question_for_unbound := Some question_two\<rparr>)"
    by blast
  from b u show ?thesis by (simp add: unbound_response_def)
qed

section \<open>Grading a numeric question\<close>

lemma round_double_bounds_tenth:
  "round_double (float_0_1 + float_0_2) = float_0_3"
  by code_simp

lemma floats_are_doubles:
  "is_double float_0_1 \<and> is_double float_0_2 \<and> is_double float_0_3
   \<and> is_double float_10_4 \<and> is_double float_10_6 \<and> is_double 10 \<and> is_double (1 / 2)"
  by code_simp





section \<open>Grading a string-match question\<close>

text \<open>
  Claim C10. When \<open>is_regex\<close> is true, \<open>StringMatchQuestion.grade\<close> returns \<open>None\<close>
  for every response: no feedback object, whatever the answer. When \<open>is_regex\<close> is
  false it returns what the default \<open>Question.grade\<close> returns, the feedback built
  from the response and the equality of the stored answer with the response's value.
\<close>

theorem string_match_grade_regex:
  "(is_regex self \<longrightarrow> string_match_grade feedback_cls self r = None)
   \<and> (\<not> is_regex self \<longrightarrow>
        string_match_grade feedback_cls self r = Some (grade feedback_cls self r)
        \<and> grade feedback_cls self r = feedback_cls r (answer self = response_value r))"
  by (simp add: string_match_grade_def grade_def)

theorem string_match_grade_regex_witness:
  "string_match_grade (\<lambda>r ok. (response_value r, ok))
       \<lparr>answer = ''Oi'', is_regex = True\<rparr> \<lparr>response_value = ''Oi''\<rparr> = None
   \<and> string_match_grade (\<lambda>r ok. (response_value r, ok))
       \<lparr>answer = ''Oi'', is_regex = False\<rparr> \<lparr>response_value = ''Oi''\<rparr> = Some (''Oi'', True)
   \<and> string_match_grade (\<lambda>r ok. (response_value r, ok))
       \<lparr>answer = ''Oi'', is_regex = False\<rparr> \<lparr>response_value = ''Ola''\<rparr> = Some (''Ola'', False)"
  using string_match_grade_regex
          [of "\<lparr>answer = ''Oi'', is_regex = True\<rparr>" "\<lambda>r ok. (response_value r, ok)"
              "\<lparr>response_value = ''Oi''\<rparr>"]
        string_match_grade_regex
          [of "\<lparr>answer = ''Oi'', is_regex = False\<rparr>" "\<lambda>r ok. (response_value r, ok)"
              "\<lparr>response_value = ''Oi''\<rparr>"]
        string_match_grade_regex
          [of "\<lparr>answer = ''Oi'', is_regex = False\<rparr>" "\<lambda>r ok. (response_value r, ok)"
              "\<lparr>response_value = ''Ola''\<rparr>"]
  by simp


end
